theory Spec2Isabelle
  imports Main "HOL-Library.List_Lexorder" "HOL-Library.Char_ord"
begin

section \<open>Values at the HTTP boundary\<close>

text \<open>
  The POST handlers of \<^verbatim>\<open>main.py\<close> read the body with \<^verbatim>\<open>data = request.get_json()\<close>,
  which gives the parsed JSON as a Python value. \<open>JNull\<close> is Python's \<^verbatim>\<open>None\<close> (the body
  \<^verbatim>\<open>null\<close>), \<open>JObj\<close> is a \<^verbatim>\<open>dict\<close> (its items, looked up by key), \<open>JArr\<close> a \<^verbatim>\<open>list\<close>.
  Numbers are Python's unbounded integers; floating-point numbers are not part of the
  model. Strings are byte strings.
\<close>

datatype json =
    JNull
  | JBool bool
  | JInt int
  | JStr string
  | JArr "json list"
  | JObj "(string \<times> json) list"

text \<open>Python's truth value: \<^verbatim>\<open>not data\<close> is \<open>\<not> truthy data\<close>.\<close>

fun truthy :: "json \<Rightarrow> bool" where
  "truthy JNull = False"
| "truthy (JBool b) = b"
| "truthy (JInt n) = (n \<noteq> 0)"
| "truthy (JStr s) = (s \<noteq> [])"
| "truthy (JArr xs) = (xs \<noteq> [])"
| "truthy (JObj kvs) = (kvs \<noteq> [])"

text \<open>
  The exceptions that can leave a handler. \<open>UnsupportedMediaType\<close> and \<open>BadRequest\<close> are
  werkzeug's HTTP exceptions, which Flask answers with a 415 and a 400 page; Flask answers
  every other one with a 500.
\<close>

datatype error =
    AttributeError
  | KeyError
  | TypeError
  | ValueError
  | OverflowError
  | IntegrityError
  | UnpicklingError
  | UnsupportedMediaType
  | BadRequest

text \<open>
  What \<^verbatim>\<open>request.get_json()\<close> finds: a request whose content type is not JSON (as
  when no body is sent at all), a request of JSON content type whose body does not parse
  (an empty body included), or a request of JSON content type with the value its body
  parses to. \<^verbatim>\<open>get_json\<close> raises on the first two.
\<close>

datatype request =
    NoJson
  | BadJson
  | Json json

fun get_json :: "request \<Rightarrow> error + json" where
  "get_json NoJson = Inl UnsupportedMediaType"
| "get_json BadJson = Inl BadRequest"
| "get_json (Json v) = Inr v"

text \<open>
  \<^verbatim>\<open>data.get(key)\<close>: only a dict has the method; a missing key gives \<^verbatim>\<open>None\<close>.
\<close>

fun py_get :: "json \<Rightarrow> string \<Rightarrow> error + json" where
  "py_get (JObj kvs) k = Inr (case map_of kvs k of None \<Rightarrow> JNull | Some v \<Rightarrow> v)"
| "py_get _ k = Inl AttributeError"

text \<open>
  \<^verbatim>\<open>data[key]\<close> with a string key: \<^verbatim>\<open>KeyError\<close> on a dict without the key,
  \<^verbatim>\<open>TypeError\<close> on every other value (\<^verbatim>\<open>None\<close>, a list, a string, a number).
\<close>

fun py_item :: "json \<Rightarrow> string \<Rightarrow> error + json" where
  "py_item (JObj kvs) k = (case map_of kvs k of None \<Rightarrow> Inl KeyError | Some v \<Rightarrow> Inr v)"
| "py_item _ k = Inl TypeError"

text \<open>
  Sequencing of statements under exceptions: \<open>seq r f\<close> evaluates \<open>r\<close>; an exception
  raised there leaves the function, a value goes on into \<open>f\<close>.
\<close>

definition seq :: "error + 'a \<Rightarrow> ('a \<Rightarrow> error + 'b) \<Rightarrow> error + 'b" where
  "seq r f = (case r of Inl e \<Rightarrow> Inl e | Inr v \<Rightarrow> f v)"

record response =
  status_code :: nat
  body :: json

text \<open>\<^verbatim>\<open>jsonify(x)\<close> is a 200 response; \<^verbatim>\<open>return jsonify(x), n\<close> sets the status.\<close>

definition jsonify :: "json \<Rightarrow> response" where
  "jsonify j = \<lparr>status_code = 200, body = j\<rparr>"

definition with_status :: "response \<Rightarrow> nat \<Rightarrow> response" where
  "with_status r n = r\<lparr>status_code := n\<rparr>"

definition error_body :: "string \<Rightarrow> json" where
  "error_body msg = JObj [(''error'', JStr msg)]"

definition message_body :: "string \<Rightarrow> json" where
  "message_body msg = JObj [(''message'', JStr msg)]"

section \<open>The persistence store\<close>

text \<open>
  The four tables of \<^verbatim>\<open>crime.db\<close>, each a list of rows in insertion order. A
  \<^verbatim>\<open>db.String\<close> column holds a string or NULL, an \<^verbatim>\<open>db.Integer\<close> column an integer.
\<close>

record User =
  User_id :: int
  username :: "string option"
  password :: "string option"
  role :: "string option"

record Case =
  Case_id :: int
  crime_type :: "string option"
  location :: "string option"
  time_of_day :: "string option"
  status :: "string option"

record Suspect =
  Suspect_id :: int
  name :: "string option"
  criminal_history :: "string option"

record Evidence =
  Evidence_id :: int
  case_id :: int
  evidence_type :: "string option"
  description :: "string option"

record db =
  users :: "User list"
  cases :: "Case list"
  suspects :: "Suspect list"
  evidences :: "Evidence list"

text \<open>
  The integers of SQLite and of numpy's \<^verbatim>\<open>int64\<close> are signed 64-bit. Python's are
  unbounded, and handing one outside the range to the SQLite driver (as a query parameter
  or a column value) or to an \<^verbatim>\<open>int64\<close> array raises \<^verbatim>\<open>OverflowError\<close>.
\<close>

definition int64 :: "int \<Rightarrow> bool" where
  "int64 n \<longleftrightarrow> - (2 ^ 63) \<le> n \<and> n < 2 ^ 63"

text \<open>
  A fitted \<^verbatim>\<open>LabelEncoder\<close> is its array \<^verbatim>\<open>classes_\<close>: of dtype object, holding strings,
  when it was fit on a column of strings, and of dtype \<^verbatim>\<open>int64\<close> when it was fit on a
  column of integers.
\<close>

datatype LabelEncoder =
    object_classes "string list"
  | int64_classes "int list"

text \<open>
  The contract of the store and of an encoder covers values of the declared type. What
  SQLAlchemy, the SQLite driver and numpy do with a value of another type (a string or a
  list offered as a primary key, a number offered for a string column, a number offered to
  an encoder of strings) is not written in \<^verbatim>\<open>main.py\<close>; it is a parameter of the model,
  and every theorem below holds for every choice of it:
  \<^item> \<open>get_other v\<close>: the primary key that \<^verbatim>\<open>Query.get(v)\<close> looks up for a \<open>v\<close> that is
    not an integer (\<open>None\<close>: no row can match), or the exception it raises;
  \<^item> \<open>integer_other v\<close>, \<open>string_other v\<close>: what an Integer or String column stores for
    a \<open>v\<close> that is neither of the column's type nor \<^verbatim>\<open>None\<close>, or the exception raised;
  \<^item> \<open>transform_other le v\<close>: what the fitted encoder \<open>le\<close> answers for a \<open>v\<close> that is
    not of the type of its classes, or the exception it raises.
\<close>

record offtype =
  get_other :: "json \<Rightarrow> error + int option"
  integer_other :: "json \<Rightarrow> error + int option"
  string_other :: "json \<Rightarrow> error + string option"
  transform_other :: "LabelEncoder \<Rightarrow> json \<Rightarrow> error + nat"

fun bind_integer :: "offtype \<Rightarrow> json \<Rightarrow> error + int option" where
  "bind_integer ext JNull = Inr None"
| "bind_integer ext (JInt n) = (if int64 n then Inr (Some n) else Inl OverflowError)"
| "bind_integer ext v = integer_other ext v"

fun bind_string :: "offtype \<Rightarrow> json \<Rightarrow> error + string option" where
  "bind_string ext JNull = Inr None"
| "bind_string ext (JStr s) = Inr (Some s)"
| "bind_string ext v = string_other ext v"

text \<open>
  A new row gets the largest id of its table plus one, and 1 in an empty table (SQLite's
  \<^verbatim>\<open>INTEGER PRIMARY KEY\<close>).
\<close>

fun new_id :: "int list \<Rightarrow> int" where
  "new_id [] = 1"
| "new_id (i # ids) = fold max ids i + 1"

text \<open>
  \<^verbatim>\<open>Case.query.get(case_id)\<close> with a Python integer, such as the one of a route
  \<^verbatim>\<open><int:case_id>\<close> (any run of digits, so any natural number): the Case with that id,
  \<^verbatim>\<open>None\<close> when there is none, \<^verbatim>\<open>OverflowError\<close> when the driver cannot take the integer.
\<close>

definition Case_get :: "db \<Rightarrow> int \<Rightarrow> error + Case option" where
  "Case_get d i =
     (if int64 i then Inr (find (\<lambda>c. Case_id c = i) (cases d)) else Inl OverflowError)"

text \<open>\<^verbatim>\<open>Case.query.get(case_id)\<close> with a value taken from a JSON body.\<close>

fun Case_query_get :: "offtype \<Rightarrow> db \<Rightarrow> json \<Rightarrow> error + Case option" where
  "Case_query_get ext d (JInt i) = Case_get d i"
| "Case_query_get ext d v =
     (case get_other ext v of
        Inl e \<Rightarrow> Inl e
      | Inr None \<Rightarrow> Inr None
      | Inr (Some i) \<Rightarrow> Case_get d i)"

text \<open>
  \<^verbatim>\<open>db.session.add(Case(...)); db.session.commit()\<close>. The columns are bound in the
  order of the class; a value the driver refuses raises and nothing is stored.
\<close>

definition insert_Case :: "offtype \<Rightarrow> db \<Rightarrow> json \<Rightarrow> json \<Rightarrow> json \<Rightarrow> json \<Rightarrow> error + db" where
  "insert_Case ext d ct loc tod st =
     seq (bind_string ext ct) (\<lambda>ct'.
     seq (bind_string ext loc) (\<lambda>loc'.
     seq (bind_string ext tod) (\<lambda>tod'.
     seq (bind_string ext st) (\<lambda>st'.
       Inr (d\<lparr>cases := cases d @
         [\<lparr>Case_id = new_id (map Case_id (cases d)), crime_type = ct', location = loc',
           time_of_day = tod', status = st'\<rparr>]\<rparr>)))))"

text \<open>
  \<^verbatim>\<open>db.session.add(Evidence(...)); db.session.commit()\<close>. \<^verbatim>\<open>case_id\<close> is declared
  \<^verbatim>\<open>nullable=False\<close>: NULL there is an \<^verbatim>\<open>IntegrityError\<close>.
\<close>

definition insert_Evidence :: "offtype \<Rightarrow> db \<Rightarrow> json \<Rightarrow> json \<Rightarrow> json \<Rightarrow> error + db" where
  "insert_Evidence ext d cid ety des =
     seq (bind_integer ext cid) (\<lambda>cid'.
     seq (bind_string ext ety) (\<lambda>ety'.
     seq (bind_string ext des) (\<lambda>des'.
       case cid' of
         None \<Rightarrow> Inl IntegrityError
       | Some i \<Rightarrow>
           Inr (d\<lparr>evidences := evidences d @
             [\<lparr>Evidence_id = new_id (map Evidence_id (evidences d)), case_id = i,
               evidence_type = ety', description = des'\<rparr>]\<rparr>))))"

text \<open>
  \<^verbatim>\<open>Case.evidences\<close>, the relationship declared on \<^verbatim>\<open>Case\<close>: the Evidence rows whose
  \<^verbatim>\<open>case_id\<close> is the Case's id.
\<close>

definition Case_evidences :: "db \<Rightarrow> Case \<Rightarrow> Evidence list" where
  "Case_evidences d c = filter (\<lambda>e. case_id e = Case_id c) (evidences d)"

text \<open>
  \<^verbatim>\<open>db.session.delete(case); db.session.commit()\<close>. The relationship carries
  \<^verbatim>\<open>cascade="all, delete"\<close>: the rows of \<^verbatim>\<open>case.evidences\<close> are deleted with the Case.
\<close>

definition session_delete_Case :: "db \<Rightarrow> Case \<Rightarrow> db" where
  "session_delete_Case d c =
     d\<lparr>cases := filter (\<lambda>x. Case_id x \<noteq> Case_id c) (cases d),
       evidences := filter (\<lambda>e. e \<notin> set (Case_evidences d c)) (evidences d)\<rparr>"

section \<open>The handlers\<close>

text \<open>
  A handler takes the state it works on and the request, and returns the state it leaves
  with the response, or the exception that leaves it. In the POST handlers
  \<^verbatim>\<open>request.get_json()\<close> is the first statement; an exception there ends the handler
  before any of its own tests.
\<close>

definition add_case :: "offtype \<Rightarrow> db \<Rightarrow> request \<Rightarrow> error + db \<times> response" where
  "add_case ext d req =
     seq (get_json req) (\<lambda>data.
     if \<not> truthy data then Inr (d, jsonify (error_body ''No JSON received''))
     else
       seq (py_get data ''crime_type'') (\<lambda>ct.
       seq (py_get data ''location'') (\<lambda>loc.
       seq (py_get data ''time_of_day'') (\<lambda>tod.
       seq (insert_Case ext d ct loc tod (JStr ''Open'')) (\<lambda>d'.
         Inr (d', jsonify (message_body ''Case added successfully'')))))))"

definition delete_case :: "db \<Rightarrow> nat \<Rightarrow> error + db \<times> response" where
  "delete_case d cid =
     seq (Case_get d (int cid)) (\<lambda>found.
     case found of
       None \<Rightarrow> Inr (d, jsonify (error_body ''Case not found''))
     | Some c \<Rightarrow>
         Inr (session_delete_Case d c, jsonify (message_body ''Case deleted successfully'')))"

definition add_evidence :: "offtype \<Rightarrow> db \<Rightarrow> request \<Rightarrow> error + db \<times> response" where
  "add_evidence ext d req =
     seq (get_json req) (\<lambda>data.
     if \<not> truthy data then Inr (d, with_status (jsonify (error_body ''No data provided'')) 400)
     else
       seq (py_get data ''case_id'') (\<lambda>cid.
       seq (py_get data ''evidence_type'') (\<lambda>ety.
       seq (py_get data ''description'') (\<lambda>des.
       if \<not> truthy cid
       then Inr (d, with_status (jsonify (error_body ''case_id is required'')) 400)
       else
         seq (Case_query_get ext d cid) (\<lambda>found.
         case found of
           None \<Rightarrow> Inr (d, with_status (jsonify (error_body ''Case not found'')) 404)
         | Some c \<Rightarrow>
             seq (insert_Evidence ext d cid ety des) (\<lambda>d'.
               Inr (d', jsonify (message_body ''Evidence added successfully''))))))))"

definition opt_json :: "string option \<Rightarrow> json" where
  "opt_json v = (case v of None \<Rightarrow> JNull | Some s \<Rightarrow> JStr s)"

definition evidence_json :: "Evidence \<Rightarrow> json" where
  "evidence_json e =
     JObj [(''id'', JInt (Evidence_id e)), (''case_id'', JInt (case_id e)),
           (''evidence_type'', opt_json (evidence_type e)),
           (''description'', opt_json (description e))]"

text \<open>
  \<^verbatim>\<open>Evidence.query.filter_by(case_id=case_id).all()\<close> hands the route's integer to the
  driver as a query parameter.
\<close>

definition view_evidence :: "db \<Rightarrow> nat \<Rightarrow> error + db \<times> response" where
  "view_evidence d cid =
     (if int64 (int cid)
      then Inr (d, jsonify (JArr (map evidence_json
             (filter (\<lambda>e. case_id e = int cid) (evidences d)))))
      else Inl OverflowError)"

section \<open>Label encoders and the model bundle\<close>

text \<open>
  A column of the frame that \<^verbatim>\<open>pd.read_csv\<close> returns. pandas chooses the type of a column
  from its cells: a column whose cells are all integer literals is read as integers
  (\<^verbatim>\<open>int64\<close>), a column of other text as strings. Columns of the further types pandas can
  choose (floating-point numbers, booleans, columns with missing values) are not part of
  the model.
\<close>

datatype column =
    StrColumn "string list"
  | IntColumn "int list"

record DataFrame =
  frame_crime_type :: column
  frame_location :: column
  frame_time_of_day :: column
  frame_suspect :: column

text \<open>
  \<^verbatim>\<open>le.fit(col)\<close>: \<^verbatim>\<open>classes_\<close> are the distinct values of the column, sorted. Strings
  are compared lexicographically, character by character, integers by value.
\<close>

fun fit :: "column \<Rightarrow> LabelEncoder" where
  "fit (StrColumn col) = object_classes (sort (remdups col))"
| "fit (IntColumn col) = int64_classes (sort (remdups col))"

fun index_of :: "'a list \<Rightarrow> 'a \<Rightarrow> nat option" where
  "index_of [] s = None"
| "index_of (c # cs) s = (if c = s then Some 0 else map_option Suc (index_of cs s))"

text \<open>
  \<^verbatim>\<open>le.transform([v])[0]\<close>: the position of \<open>v\<close> in \<^verbatim>\<open>classes_\<close>; a value of the
  classes' type that is not there raises \<^verbatim>\<open>ValueError\<close> (previously unseen label).
\<close>

fun transform :: "offtype \<Rightarrow> LabelEncoder \<Rightarrow> json \<Rightarrow> error + nat" where
  "transform ext (object_classes cs) (JStr s) =
     (case index_of cs s of None \<Rightarrow> Inl ValueError | Some i \<Rightarrow> Inr i)"
| "transform ext (int64_classes cs) (JInt n) =
     (if int64 n
      then (case index_of cs n of None \<Rightarrow> Inl ValueError | Some i \<Rightarrow> Inr i)
      else Inl OverflowError)"
| "transform ext le v = transform_other ext le v"

text \<open>
  The encoded column that \<^verbatim>\<open>le.fit_transform(col)\<close> returns: for each entry the number of
  classes before it, which is its position in \<^verbatim>\<open>classes_\<close>.
\<close>

definition positions :: "'a list \<Rightarrow> 'a list \<Rightarrow> nat list" where
  "positions cs col = map (\<lambda>x. length (takeWhile (\<lambda>c. c \<noteq> x) cs)) col"

fun fit_transform :: "column \<Rightarrow> LabelEncoder \<times> nat list" where
  "fit_transform (StrColumn col) = (fit (StrColumn col), positions (sort (remdups col)) col)"
| "fit_transform (IntColumn col) = (fit (IntColumn col), positions (sort (remdups col)) col)"

text \<open>
  The tuple that \<^verbatim>\<open>train_model\<close> dumps. \<open>model b i j k\<close> is
  \<^verbatim>\<open>str(model.predict([[i, j, k]])[0])\<close>: the label the fitted forest gives to a row of
  three codes (a forest fitted on three columns answers every such row).
\<close>

record model_bundle =
  model :: "nat \<Rightarrow> nat \<Rightarrow> nat \<Rightarrow> string"
  le_crime :: LabelEncoder
  le_location :: LabelEncoder
  le_time :: LabelEncoder

text \<open>
  The content of a file \<^verbatim>\<open>ml_model.pkl\<close>: the tuple a training run dumped, or anything
  else, which \<^verbatim>\<open>joblib.load\<close> or the unpacking into four names refuses.
\<close>

datatype pickle =
    Dumped model_bundle
  | Unloadable

fun joblib_load :: "pickle \<Rightarrow> error + model_bundle" where
  "joblib_load (Dumped b) = Inr b"
| "joblib_load Unloadable = Inl UnpicklingError"

text \<open>
  The persisted state of the application: the database and the bundle file (\<open>None\<close> when
  the file does not exist).
\<close>

record world =
  store :: db
  bundle_file :: "pickle option"

text \<open>
  \<^verbatim>\<open>train_model()\<close>. \<open>frame\<close> is what \<^verbatim>\<open>pd.read_csv('training_data.csv')\<close> returns.
  \<open>forest_fit X y\<close> is the forest that \<^verbatim>\<open>RandomForestClassifier().fit(X, y)\<close> builds in
  this run (the fit is randomised); it refuses an empty training set with
  \<^verbatim>\<open>ValueError\<close>.
\<close>

definition train_model ::
  "((nat \<times> nat \<times> nat) list \<Rightarrow> column \<Rightarrow> nat \<Rightarrow> nat \<Rightarrow> nat \<Rightarrow> string) \<Rightarrow>
   DataFrame \<Rightarrow> world \<Rightarrow> error + world" where
  "train_model forest_fit frame w =
     (let (lc, xc) = fit_transform (frame_crime_type frame);
          (ll, xl) = fit_transform (frame_location frame);
          (lt, xt) = fit_transform (frame_time_of_day frame);
          X = zip xc (zip xl xt);
          y = frame_suspect frame
      in if X = [] then Inl ValueError
         else Inr (w\<lparr>bundle_file :=
                Some (Dumped \<lparr>model = forest_fit X y, le_crime = lc, le_location = ll,
                               le_time = lt\<rparr>)\<rparr>))"

text \<open>The body of the \<^verbatim>\<open>try\<close> in \<^verbatim>\<open>predict_suspect\<close>, in Python's evaluation order.\<close>

definition encode_input :: "offtype \<Rightarrow> model_bundle \<Rightarrow> json \<Rightarrow> error + nat \<times> nat \<times> nat" where
  "encode_input ext b data =
     seq (py_item data ''crime_type'') (\<lambda>v1.
     seq (transform ext (le_crime b) v1) (\<lambda>i.
     seq (py_item data ''location'') (\<lambda>v2.
     seq (transform ext (le_location b) v2) (\<lambda>j.
     seq (py_item data ''time_of_day'') (\<lambda>v3.
     seq (transform ext (le_time b) v3) (\<lambda>k.
       Inr (i, j, k)))))))"

text \<open>
  \<^verbatim>\<open>predict_suspect()\<close>: \<^verbatim>\<open>get_json\<close>, the file test, the load, the \<^verbatim>\<open>try\<close> with its
  bare \<^verbatim>\<open>except\<close> (every exception of \<open>encode_input\<close> becomes the same response), the
  prediction. \<^verbatim>\<open>get_json\<close> and the load stand outside the \<^verbatim>\<open>try\<close>: their exceptions
  leave the handler.
\<close>

definition predict_suspect :: "offtype \<Rightarrow> world \<Rightarrow> request \<Rightarrow> error + world \<times> response" where
  "predict_suspect ext w req =
     seq (get_json req) (\<lambda>data.
     case bundle_file w of
       None \<Rightarrow> Inr (w, jsonify (error_body ''ML model not trained''))
     | Some p \<Rightarrow>
         seq (joblib_load p) (\<lambda>b.
         case encode_input ext b data of
           Inl e \<Rightarrow> Inr (w, jsonify (error_body ''Invalid input values''))
         | Inr (i, j, k) \<Rightarrow>
             Inr (w, jsonify (JObj [(''suspect_likely'', JStr (model b i j k))]))))"

section \<open>Concrete states and requests\<close>

text \<open>
  An instance of the parameter: a store and an encoder that refuse every value that is not
  of the declared type.
\<close>

definition strict :: offtype where
  "strict = \<lparr>get_other = (\<lambda>v. Inl TypeError), integer_other = (\<lambda>v. Inl TypeError),
             string_other = (\<lambda>v. Inl TypeError), transform_other = (\<lambda>le v. Inl ValueError)\<rparr>"

definition empty_db :: db where
  "empty_db = \<lparr>users = [], cases = [], suspects = [], evidences = []\<rparr>"

text \<open>Two cases; case 1 has two evidence rows, case 2 has one.\<close>

definition sample_db :: db where
  "sample_db =
     \<lparr>users = [],
      cases =
        [\<lparr>Case_id = 1, crime_type = Some ''theft'', location = Some ''downtown'',
          time_of_day = Some ''night'', status = Some ''Open''\<rparr>,
         \<lparr>Case_id = 2, crime_type = Some ''fraud'', location = None,
          time_of_day = None, status = Some ''Open''\<rparr>],
      suspects = [],
      evidences =
        [\<lparr>Evidence_id = 1, case_id = 1, evidence_type = Some ''fingerprint'',
          description = Some ''glass''\<rparr>,
         \<lparr>Evidence_id = 2, case_id = 2, evidence_type = Some ''ledger'', description = None\<rparr>,
         \<lparr>Evidence_id = 3, case_id = 1, evidence_type = Some ''footage'', description = None\<rparr>]\<rparr>"

text \<open>A training file of four rows whose columns are all text.\<close>

definition sample_frame :: DataFrame where
  "sample_frame =
     \<lparr>frame_crime_type = StrColumn [''theft'', ''fraud'', ''theft'', ''arson''],
      frame_location = StrColumn [''downtown'', ''suburb'', ''suburb'', ''downtown''],
      frame_time_of_day = StrColumn [''night'', ''day'', ''night'', ''day''],
      frame_suspect = StrColumn [''Suspect A'', ''Suspect B'', ''Suspect A'', ''Suspect C'']\<rparr>"

text \<open>
  A training file of three rows whose \<^verbatim>\<open>crime_type\<close> cells are written \<^verbatim>\<open>10\<close>,
  \<^verbatim>\<open>9\<close>, \<^verbatim>\<open>2\<close> (numeric category codes): pandas reads the column as integers.
\<close>

definition coded_frame :: DataFrame where
  "coded_frame =
     \<lparr>frame_crime_type = IntColumn [10, 9, 2],
      frame_location = StrColumn [''downtown'', ''suburb'', ''suburb''],
      frame_time_of_day = StrColumn [''night'', ''day'', ''night''],
      frame_suspect = StrColumn [''Suspect A'', ''Suspect B'', ''Suspect A'']\<rparr>"

text \<open>A forest that answers every input with the first label it was trained on.\<close>

definition first_label :: "(nat \<times> nat \<times> nat) list \<Rightarrow> column \<Rightarrow> nat \<Rightarrow> nat \<Rightarrow> nat \<Rightarrow> string" where
  "first_label X y = (\<lambda>i j k. case y of StrColumn (l # ls) \<Rightarrow> l | _ \<Rightarrow> [])"

definition sample_bundle :: model_bundle where
  "sample_bundle =
     \<lparr>model = first_label [] (StrColumn [''Suspect A'']),
      le_crime = object_classes [''arson'', ''fraud'', ''theft''],
      le_location = object_classes [''downtown'', ''suburb''],
      le_time = object_classes [''day'', ''night'']\<rparr>"

definition untrained :: world where
  "untrained = \<lparr>store = sample_db, bundle_file = None\<rparr>"

definition trained :: world where
  "trained = \<lparr>store = sample_db, bundle_file = Some (Dumped sample_bundle)\<rparr>"

section \<open>Facts about the handlers\<close>

lemma add_case_creates:
  assumes "kvs \<noteq> []"
    and "bind_string ext (case map_of kvs ''crime_type'' of None \<Rightarrow> JNull | Some v \<Rightarrow> v) = Inr ct"
    and "bind_string ext (case map_of kvs ''location'' of None \<Rightarrow> JNull | Some v \<Rightarrow> v) = Inr loc"
    and "bind_string ext (case map_of kvs ''time_of_day'' of None \<Rightarrow> JNull | Some v \<Rightarrow> v) = Inr tod"
  shows "add_case ext d (Json (JObj kvs)) =
     Inr (d\<lparr>cases := cases d @
            [\<lparr>Case_id = new_id (map Case_id (cases d)), crime_type = ct, location = loc,
              time_of_day = tod, status = Some ''Open''\<rparr>]\<rparr>,
          jsonify (message_body ''Case added successfully''))"
  using assms by (simp add: add_case_def insert_Case_def seq_def)

lemma add_case_ignores_status:
  assumes "kvs \<noteq> []"
  shows "add_case ext d (Json (JObj (kvs @ [(''status'', v)]))) = add_case ext d (Json (JObj kvs))"
  using assms by (simp add: add_case_def seq_def map_add_def split: option.splits)

lemma handler_refuses:
  "get_json req = Inl e \<Longrightarrow> add_case ext d req = Inl e"
  "get_json req = Inl e \<Longrightarrow> add_evidence ext d req = Inl e"
  "get_json req = Inl e \<Longrightarrow> predict_suspect ext w req = Inl e"
  by (simp_all add: add_case_def add_evidence_def predict_suspect_def seq_def)

lemma add_evidence_no_data:
  "\<not> truthy data \<Longrightarrow>
   add_evidence ext d (Json data) =
     Inr (d, \<lparr>status_code = 400, body = JObj [(''error'', JStr ''No data provided'')]\<rparr>)"
  by (simp add: add_evidence_def seq_def jsonify_def with_status_def error_body_def)

lemma add_evidence_no_case_id:
  assumes "truthy data" and "py_get data ''case_id'' = Inr cid" and "\<not> truthy cid"
  shows "add_evidence ext d (Json data) =
     Inr (d, \<lparr>status_code = 400, body = JObj [(''error'', JStr ''case_id is required'')]\<rparr>)"
proof -
  from assms(2) obtain kvs where "data = JObj kvs" by (cases data) auto
  with assms show ?thesis
    by (simp add: add_evidence_def seq_def jsonify_def with_status_def error_body_def)
qed

lemma add_evidence_case_absent:
  assumes "truthy data" and "py_get data ''case_id'' = Inr cid" and "truthy cid"
    and "Case_query_get ext d cid = Inr None"
  shows "add_evidence ext d (Json data) =
     Inr (d, \<lparr>status_code = 404, body = JObj [(''error'', JStr ''Case not found'')]\<rparr>)"
proof -
  from assms(2) obtain kvs where "data = JObj kvs" by (cases data) auto
  with assms show ?thesis
    by (simp add: add_evidence_def seq_def jsonify_def with_status_def error_body_def)
qed

lemma add_evidence_lookup_raises:
  assumes "truthy data" and "py_get data ''case_id'' = Inr cid" and "truthy cid"
    and "Case_query_get ext d cid = Inl e"
  shows "add_evidence ext d (Json data) = Inl e"
proof -
  from assms(2) obtain kvs where "data = JObj kvs" by (cases data) auto
  with assms show ?thesis
    by (simp add: add_evidence_def seq_def)
qed

lemma delete_case_absent:
  "Case_get d (int cid) = Inr None \<Longrightarrow>
   delete_case d cid =
     Inr (d, \<lparr>status_code = 200, body = JObj [(''error'', JStr ''Case not found'')]\<rparr>)"
  by (simp add: delete_case_def seq_def jsonify_def error_body_def)

lemma Case_get_Some:
  assumes "Case_get d i = Inr (Some c)"
  shows "int64 i" and "find (\<lambda>c. Case_id c = i) (cases d) = Some c" and "Case_id c = i"
proof -
  from assms show "int64 i" and f: "find (\<lambda>c. Case_id c = i) (cases d) = Some c"
    by (auto simp: Case_get_def split: if_splits)
  from f show "Case_id c = i" by (auto simp: find_Some_iff)
qed


lemma index_of_seen: "s \<in> set cs \<Longrightarrow> \<exists>i. index_of cs s = Some i"
  by (induction cs) auto

lemma index_of_Some: "index_of cs s = Some i \<Longrightarrow> i < length cs \<and> cs ! i = s"
  by (induction cs arbitrary: i) (auto split: if_splits)

lemma index_of_nth: "distinct cs \<Longrightarrow> i < length cs \<Longrightarrow> index_of cs (cs ! i) = Some i"
proof (induction cs arbitrary: i)
  case Nil
  then show ?case by simp
next
  case (Cons c cs)
  show ?case
  proof (cases i)
    case 0
    then show ?thesis by simp
  next
    case (Suc k)
    with Cons.prems have "k < length cs" and "cs ! k \<in> set cs" and "c \<notin> set cs" by auto
    with Cons Suc show ?thesis by auto
  qed
qed

lemma predict_no_bundle:
  "bundle_file w = None \<Longrightarrow>
   predict_suspect ext w (Json data) = Inr (w, jsonify (error_body ''ML model not trained''))"
  by (simp add: predict_suspect_def seq_def)

lemma predict_encode_error:
  "bundle_file w = Some (Dumped b) \<Longrightarrow> encode_input ext b data = Inl e \<Longrightarrow>
   predict_suspect ext w (Json data) = Inr (w, jsonify (error_body ''Invalid input values''))"
  by (simp add: predict_suspect_def seq_def)

lemma predict_unloadable:
  "bundle_file w = Some Unloadable \<Longrightarrow> predict_suspect ext w (Json data) = Inl UnpicklingError"
  by (simp add: predict_suspect_def seq_def)



lemma encode_input_malformed:
  assumes "py_item data ''crime_type'' = Inl e \<or> py_item data ''location'' = Inl e
         \<or> py_item data ''time_of_day'' = Inl e"
  shows "\<exists>e'. encode_input ext b data = Inl e'"
  using assms
  by (auto simp: encode_input_def seq_def split: sum.splits)

lemma train_model_writes:
  assumes "train_model forest_fit frame w = Inr w'"
  obtains b where "bundle_file w' = Some (Dumped b)"
    "le_crime b = fit (frame_crime_type frame)"
    "le_location b = fit (frame_location frame)"
    "le_time b = fit (frame_time_of_day frame)"
proof -
  have fst_ft: "fst (fit_transform col) = fit col" for col
    by (cases col) simp_all
  from assms that show thesis
    by (auto simp: train_model_def Let_def split_def fst_ft split: if_splits)
qed

section \<open>Deleting a case\<close>

text \<open>
  C1. When the lookup of \<open>delete_case\<close> finds a Case with the id, \<open>delete_case\<close> succeeds,
  removes the Case and every Evidence row that references it (the \<open>N\<close> rows whose
  \<open>case_id\<close> is the id, and no other row), and \<open>view_evidence\<close> for that id on the
  resulting store returns the empty list.
\<close>

theorem delete_case_cascade:
  assumes "Case_get d (int cid) = Inr (Some c)"
  shows "\<exists>d'. delete_case d cid = Inr (d', jsonify (message_body ''Case deleted successfully''))
           \<and> Case_get d' (int cid) = Inr None
           \<and> cases d' = filter (\<lambda>x. Case_id x \<noteq> int cid) (cases d)
           \<and> evidences d' = filter (\<lambda>e. case_id e \<noteq> int cid) (evidences d)
           \<and> length (evidences d') + length (filter (\<lambda>e. case_id e = int cid) (evidences d))
               = length (evidences d)
           \<and> view_evidence d' cid = Inr (d', jsonify (JArr []))"
proof -
  from Case_get_Some [OF assms] have rng: "int64 (int cid)" and cid: "Case_id c = int cid"
    by simp_all
  let ?d' = "session_delete_Case d c"
  have ev: "evidences ?d' = filter (\<lambda>e. case_id e \<noteq> int cid) (evidences d)"
    by (auto simp: session_delete_Case_def Case_evidences_def cid intro: filter_cong)
  have cs: "cases ?d' = filter (\<lambda>x. Case_id x \<noteq> int cid) (cases d)"
    by (simp add: session_delete_Case_def cid)
  have gone: "Case_get ?d' (int cid) = Inr None"
    by (simp add: Case_get_def rng cs find_None_iff)
  have len: "length (evidences ?d') + length (filter (\<lambda>e. case_id e = int cid) (evidences d))
      = length (evidences d)"
    unfolding ev using sum_length_filter_compl [of "\<lambda>e. case_id e = int cid" "evidences d"]
    by simp
  have view: "view_evidence ?d' cid = Inr (?d', jsonify (JArr []))"
    by (simp add: view_evidence_def rng ev filter_empty_conv)
  have del: "delete_case d cid = Inr (?d', jsonify (message_body ''Case deleted successfully''))"
    by (simp add: delete_case_def seq_def assms)
  from del gone cs ev len view show ?thesis by blast
qed

text \<open>Case 1 of \<open>sample_db\<close> has two of the three evidence rows; one row is left.\<close>

theorem delete_case_cascade_witness:
  "Case_get sample_db (int 1) =
     Inr (Some \<lparr>Case_id = 1, crime_type = Some ''theft'', location = Some ''downtown'',
           time_of_day = Some ''night'', status = Some ''Open''\<rparr>)
   \<and> length (filter (\<lambda>e. case_id e = int 1) (evidences sample_db)) = 2
   \<and> (\<exists>d'. delete_case sample_db 1 =
               Inr (d', jsonify (message_body ''Case deleted successfully''))
           \<and> Case_get d' (int 1) = Inr None
           \<and> length (evidences d') = 1
           \<and> view_evidence d' 1 = Inr (d', jsonify (JArr [])))"
proof -
  have h: "Case_get sample_db (int 1) =
     Inr (Some \<lparr>Case_id = 1, crime_type = Some ''theft'', location = Some ''downtown'',
           time_of_day = Some ''night'', status = Some ''Open''\<rparr>)"
    by (simp add: Case_get_def int64_def sample_db_def)
  have n: "length (filter (\<lambda>e. case_id e = int 1) (evidences sample_db)) = 2"
    by (simp add: sample_db_def)
  have t: "length (evidences sample_db) = 3"
    by (simp add: sample_db_def)
  from delete_case_cascade [OF h] n t h show ?thesis
    by auto
qed

section \<open>Adding a case\<close>

text \<open>
  C2. Whenever \<open>add_case\<close> creates a Case from a non-empty body, the Case is appended
  with status exactly \<open>''Open''\<close>, whatever the body holds (a \<open>status\<close> entry included); the
  other tables are untouched.
\<close>

theorem add_case_status_open:
  assumes "truthy data" and "add_case ext d (Json data) = Inr (d', r)"
  shows "\<exists>c. cases d' = cases d @ [c] \<and> status c = Some ''Open''
           \<and> Case_id c = new_id (map Case_id (cases d))
           \<and> evidences d' = evidences d
           \<and> r = jsonify (message_body ''Case added successfully'')"
  using assms
  by (auto simp: add_case_def insert_Case_def seq_def split: sum.splits)

text \<open>A body that asks for status \<open>''Closed''\<close> still creates an open case.\<close>

theorem add_case_status_open_witness:
  "truthy (JObj [(''crime_type'', JStr ''theft''), (''status'', JStr ''Closed'')])
   \<and> add_case strict empty_db
       (Json (JObj [(''crime_type'', JStr ''theft''), (''status'', JStr ''Closed'')])) =
       Inr (empty_db\<lparr>cases := [\<lparr>Case_id = 1, crime_type = Some ''theft'', location = None,
                                 time_of_day = None, status = Some ''Open''\<rparr>]\<rparr>,
            jsonify (message_body ''Case added successfully''))
   \<and> (\<exists>c. cases (empty_db\<lparr>cases := [\<lparr>Case_id = 1, crime_type = Some ''theft'', location = None,
                                 time_of_day = None, status = Some ''Open''\<rparr>]\<rparr>) = cases empty_db @ [c]
        \<and> status c = Some ''Open'')"
proof -
  let ?data = "JObj [(''crime_type'', JStr ''theft''), (''status'', JStr ''Closed'')]"
  let ?d' = "empty_db\<lparr>cases := [\<lparr>Case_id = 1, crime_type = Some ''theft'', location = None,
                                 time_of_day = None, status = Some ''Open''\<rparr>]\<rparr>"
  have h1: "truthy ?data" by simp
  have h2: "add_case strict empty_db (Json ?data) =
      Inr (?d', jsonify (message_body ''Case added successfully''))"
    by (simp add: add_case_def insert_Case_def seq_def empty_db_def)
  from add_case_status_open [OF h1 h2] h1 h2 show ?thesis by blast
qed

section \<open>Adding evidence\<close>

text \<open>
  C3, as the claim states it, fails: the \<open>case_id\<close> 0 resolves to no Case of \<open>sample_db\<close>,
  and the request is answered with 400 and \<open>case_id is required\<close>, not with the not-found
  response.
\<close>

theorem add_evidence_zero_case_id_counterexample:
  "Case_query_get strict sample_db (JInt 0) = Inr None
   \<and> add_evidence strict sample_db
       (Json (JObj [(''case_id'', JInt 0), (''evidence_type'', JStr ''note'')])) =
       Inr (sample_db, \<lparr>status_code = 400, body = JObj [(''error'', JStr ''case_id is required'')]\<rparr>)
   \<and> \<lparr>status_code = 400, body = JObj [(''error'', JStr ''case_id is required'')]\<rparr>
       \<noteq> \<lparr>status_code = 404, body = JObj [(''error'', JStr ''Case not found'')]\<rparr>"
  by (simp add: Case_get_def int64_def sample_db_def add_evidence_def seq_def jsonify_def
      with_status_def error_body_def)

text \<open>
  C3, amended. For a request whose body parses to a non-empty value with a truthy
  \<open>case_id\<close> for which the lookup \<^verbatim>\<open>Case.query.get(case_id)\<close> returns no Case,
  \<open>add_evidence\<close> answers 404 with \<open>Case not found\<close> and leaves the store as it was. When
  the \<open>case_id\<close> is absent or falsy (\<^verbatim>\<open>None\<close>, 0, an empty string) the answer is 400 with
  \<open>case_id is required\<close>, the store again unchanged. (The lookup returns a result for every
  integer within the signed 64-bit range; nothing is stated here for a \<open>case_id\<close> on which
  it raises.)
\<close>

theorem add_evidence_unknown_case:
  assumes "truthy data" and "py_get data ''case_id'' = Inr cid"
  shows "(truthy cid \<and> Case_query_get ext d cid = Inr None \<longrightarrow>
            add_evidence ext d (Json data) =
              Inr (d, \<lparr>status_code = 404, body = JObj [(''error'', JStr ''Case not found'')]\<rparr>))
       \<and> (\<not> truthy cid \<longrightarrow>
            add_evidence ext d (Json data) =
              Inr (d, \<lparr>status_code = 400, body = JObj [(''error'', JStr ''case_id is required'')]\<rparr>))"
  using assms add_evidence_case_absent add_evidence_no_case_id by blast

theorem add_evidence_unknown_case_witness:
  "truthy (JObj [(''case_id'', JInt 7), (''description'', JStr ''glass'')])
   \<and> py_get (JObj [(''case_id'', JInt 7), (''description'', JStr ''glass'')]) ''case_id'' = Inr (JInt 7)
   \<and> truthy (JInt 7)
   \<and> Case_query_get strict sample_db (JInt 7) = Inr None
   \<and> add_evidence strict sample_db
       (Json (JObj [(''case_id'', JInt 7), (''description'', JStr ''glass'')])) =
       Inr (sample_db, \<lparr>status_code = 404, body = JObj [(''error'', JStr ''Case not found'')]\<rparr>)
   \<and> truthy (JObj [(''description'', JStr ''glass'')])
   \<and> py_get (JObj [(''description'', JStr ''glass'')]) ''case_id'' = Inr JNull
   \<and> \<not> truthy JNull
   \<and> add_evidence strict sample_db (Json (JObj [(''description'', JStr ''glass'')])) =
       Inr (sample_db, \<lparr>status_code = 400, body = JObj [(''error'', JStr ''case_id is required'')]\<rparr>)"
proof -
  let ?a = "JObj [(''case_id'', JInt 7), (''description'', JStr ''glass'')]"
  let ?b = "JObj [(''description'', JStr ''glass'')]"
  have a1: "truthy ?a" and a2: "py_get ?a ''case_id'' = Inr (JInt 7)" and a3: "truthy (JInt 7)"
    by simp_all
  have a4: "Case_query_get strict sample_db (JInt 7) = Inr None"
    by (simp add: Case_get_def int64_def sample_db_def)
  have b1: "truthy ?b" and b2: "py_get ?b ''case_id'' = Inr JNull" and b3: "\<not> truthy JNull"
    by simp_all
  from add_evidence_unknown_case [OF a1 a2, of strict sample_db]
       add_evidence_unknown_case [OF b1 b2, of strict sample_db]
       a1 a2 a3 a4 b1 b2 b3
  show ?thesis by blast
qed

section \<open>The error convention of the two endpoints\<close>

text \<open>
  C7, as the claim states it, fails: no Case of \<open>sample_db\<close> has the id \<open>2 ^ 63\<close>, and both
  \<open>delete_case\<close> on that id and \<open>add_evidence\<close> with it as \<open>case_id\<close> end in an
  \<^verbatim>\<open>OverflowError\<close> of the lookup, neither in the 200 body with the \<open>error\<close> key nor in a
  404.
\<close>

theorem error_status_convention_counterexample:
  "find (\<lambda>c. Case_id c = 9223372036854775808) (cases sample_db) = None
   \<and> delete_case sample_db 9223372036854775808 = Inl OverflowError
   \<and> add_evidence strict sample_db (Json (JObj [(''case_id'', JInt 9223372036854775808)])) =
       Inl OverflowError"
  by (simp add: sample_db_def delete_case_def add_evidence_def Case_get_def int64_def seq_def)

text \<open>
  C7, amended. \<open>delete_case\<close> on an id for which the lookup returns no Case (an absent id
  within the signed 64-bit range) answers with status 200 and a body whose only key is
  \<open>error\<close>. \<open>add_evidence\<close> answers a parsed body that is falsy and a \<open>case_id\<close> that is
  absent or falsy with status 400, and a \<open>case_id\<close> for which the lookup returns no Case
  with status 404. None of these requests changes the store.
\<close>

theorem error_status_convention:
  "(Case_get d (int cid) = Inr None \<longrightarrow>
      delete_case d cid =
        Inr (d, \<lparr>status_code = 200, body = JObj [(''error'', JStr ''Case not found'')]\<rparr>))
   \<and> (\<not> truthy data \<longrightarrow>
      add_evidence ext d (Json data) =
        Inr (d, \<lparr>status_code = 400, body = JObj [(''error'', JStr ''No data provided'')]\<rparr>))
   \<and> (truthy data \<and> py_get data ''case_id'' = Inr v \<and> \<not> truthy v \<longrightarrow>
      add_evidence ext d (Json data) =
        Inr (d, \<lparr>status_code = 400, body = JObj [(''error'', JStr ''case_id is required'')]\<rparr>))
   \<and> (truthy data \<and> py_get data ''case_id'' = Inr v \<and> truthy v
        \<and> Case_query_get ext d v = Inr None \<longrightarrow>
      add_evidence ext d (Json data) =
        Inr (d, \<lparr>status_code = 404, body = JObj [(''error'', JStr ''Case not found'')]\<rparr>))"
  using delete_case_absent add_evidence_no_data add_evidence_no_case_id add_evidence_case_absent
  by blast

theorem error_status_convention_witness:
  "Case_get sample_db (int 9) = Inr None
   \<and> delete_case sample_db 9 =
        Inr (sample_db, \<lparr>status_code = 200, body = JObj [(''error'', JStr ''Case not found'')]\<rparr>)
   \<and> \<not> truthy (JObj [])
   \<and> add_evidence strict sample_db (Json (JObj [])) =
        Inr (sample_db, \<lparr>status_code = 400, body = JObj [(''error'', JStr ''No data provided'')]\<rparr>)
   \<and> py_get (JObj [(''evidence_type'', JStr ''note'')]) ''case_id'' = Inr JNull
   \<and> add_evidence strict sample_db (Json (JObj [(''evidence_type'', JStr ''note'')])) =
        Inr (sample_db, \<lparr>status_code = 400, body = JObj [(''error'', JStr ''case_id is required'')]\<rparr>)
   \<and> py_get (JObj [(''case_id'', JInt 9)]) ''case_id'' = Inr (JInt 9)
   \<and> Case_query_get strict sample_db (JInt 9) = Inr None
   \<and> add_evidence strict sample_db (Json (JObj [(''case_id'', JInt 9)])) =
        Inr (sample_db, \<lparr>status_code = 404, body = JObj [(''error'', JStr ''Case not found'')]\<rparr>)"
proof -
  let ?b = "JObj [(''evidence_type'', JStr ''note'')]"
  let ?c = "JObj [(''case_id'', JInt 9)]"
  have g: "Case_get sample_db (int 9) = Inr None"
    by (simp add: Case_get_def int64_def sample_db_def)
  have q: "Case_query_get strict sample_db (JInt 9) = Inr None"
    by (simp add: Case_get_def int64_def sample_db_def)
  have a: "\<not> truthy (JObj [])" by simp
  have b: "truthy ?b" "py_get ?b ''case_id'' = Inr JNull" "\<not> truthy JNull" by simp_all
  have c: "truthy ?c" "py_get ?c ''case_id'' = Inr (JInt 9)" "truthy (JInt 9)" by simp_all
  from error_status_convention [of sample_db 9 "JObj []" strict "JNull"]
       error_status_convention [of sample_db 9 ?b strict "JNull"]
       error_status_convention [of sample_db 9 ?c strict "JInt 9"]
       g q a b c
  show ?thesis by blast
qed

section \<open>Prediction\<close>



text \<open>
  C5, as the claim states it, fails: with the bundle in place, a body with a category
  unseen in training (\<^verbatim>\<open>ValueError\<close> in the encoder) and a body that lacks two fields
  (\<^verbatim>\<open>KeyError\<close>) get the same response.
\<close>

theorem prediction_errors_counterexample:
  "encode_input strict sample_bundle
      (JObj [(''crime_type'', JStr ''smuggling''), (''location'', JStr ''downtown''),
             (''time_of_day'', JStr ''night'')]) = Inl ValueError
   \<and> encode_input strict sample_bundle (JObj [(''crime_type'', JStr ''theft'')]) = Inl KeyError
   \<and> predict_suspect strict trained
      (Json (JObj [(''crime_type'', JStr ''smuggling''), (''location'', JStr ''downtown''),
                   (''time_of_day'', JStr ''night'')])) =
      predict_suspect strict trained (Json (JObj [(''crime_type'', JStr ''theft'')]))"
  by (simp add: encode_input_def seq_def sample_bundle_def predict_suspect_def trained_def)

text \<open>
  C5, amended. A missing bundle is answered with \<open>{"error": "ML model not trained"}\<close>. With
  the bundle in place, every exception of the encoding step, the encoder's on an unseen
  category and Python's on a malformed body alike, is answered with the one response
  \<open>{"error": "Invalid input values"}\<close>. The two responses differ, so the model-missing
  error is told apart from the other two, which are not told apart from each other.
\<close>

theorem prediction_error_responses:
  "(bundle_file w = None \<longrightarrow>
      predict_suspect ext w (Json data) =
        Inr (w, jsonify (error_body ''ML model not trained'')))
   \<and> (bundle_file w = Some (Dumped b) \<and> encode_input ext b data = Inl e \<longrightarrow>
      predict_suspect ext w (Json data) =
        Inr (w, jsonify (error_body ''Invalid input values'')))
   \<and> jsonify (error_body ''ML model not trained'') \<noteq> jsonify (error_body ''Invalid input values'')"
  using predict_no_bundle predict_encode_error
  by (auto simp: jsonify_def error_body_def)

theorem prediction_error_responses_witness:
  "bundle_file untrained = None
   \<and> predict_suspect strict untrained (Json (JObj [(''crime_type'', JStr ''theft'')])) =
       Inr (untrained, jsonify (error_body ''ML model not trained''))
   \<and> bundle_file trained = Some (Dumped sample_bundle)
   \<and> encode_input strict sample_bundle (JObj [(''crime_type'', JStr ''theft'')]) = Inl KeyError
   \<and> predict_suspect strict trained (Json (JObj [(''crime_type'', JStr ''theft'')])) =
       Inr (trained, jsonify (error_body ''Invalid input values''))
   \<and> encode_input strict sample_bundle
       (JObj [(''crime_type'', JStr ''smuggling''), (''location'', JStr ''downtown''),
              (''time_of_day'', JStr ''night'')]) = Inl ValueError
   \<and> predict_suspect strict trained
       (Json (JObj [(''crime_type'', JStr ''smuggling''), (''location'', JStr ''downtown''),
                    (''time_of_day'', JStr ''night'')])) =
       Inr (trained, jsonify (error_body ''Invalid input values''))"
proof -
  let ?m = "JObj [(''crime_type'', JStr ''theft'')]"
  let ?u = "JObj [(''crime_type'', JStr ''smuggling''), (''location'', JStr ''downtown''),
                  (''time_of_day'', JStr ''night'')]"
  have n: "bundle_file untrained = None" by (simp add: untrained_def)
  have t: "bundle_file trained = Some (Dumped sample_bundle)" by (simp add: trained_def)
  have m: "encode_input strict sample_bundle ?m = Inl KeyError"
    by (simp add: encode_input_def seq_def sample_bundle_def)
  have u: "encode_input strict sample_bundle ?u = Inl ValueError"
    by (simp add: encode_input_def seq_def sample_bundle_def)
  from prediction_error_responses [of untrained strict ?m sample_bundle KeyError]
       prediction_error_responses [of trained strict ?m sample_bundle KeyError]
       prediction_error_responses [of trained strict ?u sample_bundle ValueError]
       n t m u
  show ?thesis by blast
qed



text \<open>
  C9, as the claim states it, fails: with the bundle in place, a request without a JSON
  body and a request whose body does not parse are refused by \<^verbatim>\<open>get_json\<close>, which stands
  before the \<^verbatim>\<open>try\<close>; the exception leaves the handler, and the answer is neither a
  prediction nor \<open>{"error": "Invalid input values"}\<close>.
\<close>

theorem predict_never_faults_counterexample:
  "bundle_file trained = Some (Dumped sample_bundle)
   \<and> predict_suspect strict trained NoJson = Inl UnsupportedMediaType
   \<and> predict_suspect strict trained BadJson = Inl BadRequest"
  by (simp add: trained_def predict_suspect_def seq_def)

text \<open>
  C9, amended. When the bundle file holds the tuple a training run dumped,
  \<open>predict_suspect\<close> returns for every body that \<^verbatim>\<open>get_json\<close> parses, with the state
  unchanged, either \<open>{"error": "Invalid input values"}\<close> or a prediction; no exception
  leaves the handler. A parsed body on which reading one of the three fields raises
  (\<^verbatim>\<open>None\<close>, a value that is no dict, a dict without the key) gets the error response. A
  request that \<^verbatim>\<open>get_json\<close> refuses ends in its exception (415 without JSON, 400 for JSON
  that does not parse).
\<close>

theorem predict_never_faults:
  assumes "bundle_file w = Some (Dumped b)"
  shows "(predict_suspect ext w (Json data) =
            Inr (w, jsonify (error_body ''Invalid input values''))
          \<or> (\<exists>l. predict_suspect ext w (Json data) =
                   Inr (w, jsonify (JObj [(''suspect_likely'', JStr l)]))))
       \<and> (py_item data ''crime_type'' = Inl e \<or> py_item data ''location'' = Inl e
            \<or> py_item data ''time_of_day'' = Inl e \<longrightarrow>
          predict_suspect ext w (Json data) =
            Inr (w, jsonify (error_body ''Invalid input values'')))
       \<and> predict_suspect ext w NoJson = Inl UnsupportedMediaType
       \<and> predict_suspect ext w BadJson = Inl BadRequest"
proof -
  have "predict_suspect ext w (Json data) =
            Inr (w, jsonify (error_body ''Invalid input values''))
          \<or> (\<exists>l. predict_suspect ext w (Json data) =
                   Inr (w, jsonify (JObj [(''suspect_likely'', JStr l)])))"
    using assms by (auto simp: predict_suspect_def seq_def split: sum.splits)
  moreover have "predict_suspect ext w (Json data) =
      Inr (w, jsonify (error_body ''Invalid input values''))"
    if "py_item data ''crime_type'' = Inl e \<or> py_item data ''location'' = Inl e
            \<or> py_item data ''time_of_day'' = Inl e"
    using encode_input_malformed [OF that] predict_encode_error [OF assms] by blast
  moreover have "predict_suspect ext w NoJson = Inl UnsupportedMediaType"
    "predict_suspect ext w BadJson = Inl BadRequest"
    by (simp_all add: handler_refuses)
  ultimately show ?thesis by blast
qed

theorem predict_never_faults_witness:
  "bundle_file trained = Some (Dumped sample_bundle)
   \<and> py_item JNull ''crime_type'' = Inl TypeError
   \<and> predict_suspect strict trained (Json JNull) =
       Inr (trained, jsonify (error_body ''Invalid input values''))
   \<and> py_item (JObj [(''crime_type'', JStr ''theft''), (''location'', JStr ''downtown'')])
        ''time_of_day'' = Inl KeyError
   \<and> predict_suspect strict trained
        (Json (JObj [(''crime_type'', JStr ''theft''), (''location'', JStr ''downtown'')])) =
       Inr (trained, jsonify (error_body ''Invalid input values''))
   \<and> predict_suspect strict trained
        (Json (JObj [(''crime_type'', JStr ''theft''), (''location'', JStr ''downtown''),
                     (''time_of_day'', JStr ''night'')])) =
       Inr (trained, jsonify (JObj [(''suspect_likely'', JStr ''Suspect A'')]))"
proof -
  let ?m = "JObj [(''crime_type'', JStr ''theft''), (''location'', JStr ''downtown'')]"
  have h: "bundle_file trained = Some (Dumped sample_bundle)" by (simp add: trained_def)
  have n: "py_item JNull ''crime_type'' = Inl TypeError" by simp
  have m: "py_item ?m ''time_of_day'' = Inl KeyError" by simp
  have ok: "predict_suspect strict trained
        (Json (JObj [(''crime_type'', JStr ''theft''), (''location'', JStr ''downtown''),
                     (''time_of_day'', JStr ''night'')])) =
       Inr (trained, jsonify (JObj [(''suspect_likely'', JStr ''Suspect A'')]))"
    by (simp add: predict_suspect_def trained_def encode_input_def seq_def sample_bundle_def
        first_label_def)
  from predict_never_faults [OF h, of strict JNull TypeError]
       predict_never_faults [OF h, of strict ?m KeyError]
       h n m ok
  show ?thesis by blast
qed

text \<open>
  C10, as the claim states it, fails: \<^verbatim>\<open>get_json\<close> runs before the test for the bundle
  file, so with the file absent a request whose body does not parse, or that carries no
  JSON, ends in the exception of \<^verbatim>\<open>get_json\<close> and not in the model-missing error.
\<close>

theorem model_missing_precedence_counterexample:
  "bundle_file untrained = None
   \<and> predict_suspect strict untrained BadJson = Inl BadRequest
   \<and> predict_suspect strict untrained NoJson = Inl UnsupportedMediaType"
  by (simp add: untrained_def predict_suspect_def seq_def)

text \<open>
  C10, amended. The test for the bundle file comes after \<^verbatim>\<open>get_json\<close> and before any
  look at a field of the body: when the file is absent, every body that \<^verbatim>\<open>get_json\<close>
  parses, \<^verbatim>\<open>None\<close>, the empty and the wrongly shaped ones included, gets
  \<open>{"error": "ML model not trained"}\<close> and never the input error; a request that
  \<^verbatim>\<open>get_json\<close> refuses ends in its exception.
\<close>

theorem model_missing_precedence:
  assumes "bundle_file w = None"
  shows "predict_suspect ext w (Json data) =
           Inr (w, jsonify (error_body ''ML model not trained''))
       \<and> predict_suspect ext w (Json data) \<noteq>
           Inr (w, jsonify (error_body ''Invalid input values''))
       \<and> predict_suspect ext w NoJson = Inl UnsupportedMediaType
       \<and> predict_suspect ext w BadJson = Inl BadRequest"
  using predict_no_bundle [OF assms]
  by (simp add: jsonify_def error_body_def handler_refuses)

theorem model_missing_precedence_witness:
  "bundle_file untrained = None
   \<and> predict_suspect strict untrained (Json JNull) =
       Inr (untrained, jsonify (error_body ''ML model not trained''))
   \<and> predict_suspect strict untrained (Json (JObj [])) =
       Inr (untrained, jsonify (error_body ''ML model not trained''))
   \<and> predict_suspect strict untrained (Json (JArr [JInt 1])) =
       Inr (untrained, jsonify (error_body ''ML model not trained''))"
proof -
  have h: "bundle_file untrained = None" by (simp add: untrained_def)
  from model_missing_precedence [OF h, of strict JNull]
       model_missing_precedence [OF h, of strict "JObj []"]
       model_missing_precedence [OF h, of strict "JArr [JInt 1]"] h
  show ?thesis by blast
qed

section \<open>The fitted label encoders\<close>

lemma transform_code:
  assumes "s \<in> set cs"
  obtains i where "transform ext (object_classes cs) (JStr s) = Inr i" "i < length cs"
    "cs ! i = s"
proof -
  from index_of_seen [OF assms] obtain i where i: "index_of cs s = Some i" ..
  from index_of_Some [OF i] have a: "i < length cs" and b: "cs ! i = s"
    by simp_all
  from i have c: "transform ext (object_classes cs) (JStr s) = Inr i"
    by simp
  from c a b show thesis by (rule that)
qed

lemma transform_code_inv:
  assumes "transform ext (object_classes cs) (JStr s) = Inr i"
  shows "i < length cs" and "cs ! i = s"
proof -
  from assms have "index_of cs s = Some i"
    by (cases "index_of cs s") simp_all
  from index_of_Some [OF this] show "i < length cs" and "cs ! i = s"
    by simp_all
qed

lemma object_bijection:
  assumes "distinct cs"
  shows "bij_betw (\<lambda>s. transform ext (object_classes cs) (JStr s)) (set cs)
     (Inr ` {0..<length cs})"
proof (rule bij_betw_imageI)
  let ?f = "\<lambda>s. transform ext (object_classes cs) (JStr s)"
  show "inj_on ?f (set cs)"
  proof (rule inj_onI)
    fix s t
    assume s: "s \<in> set cs" and t: "t \<in> set cs" and eq: "?f s = ?f t"
    from s obtain i where i: "?f s = Inr i" "cs ! i = s"
      by (rule transform_code)
    from t obtain j where j: "?f t = Inr j" "cs ! j = t"
      by (rule transform_code)
    from eq i(1) j(1) have "i = j" by simp
    with i(2) j(2) show "s = t" by simp
  qed
  show "?f ` set cs = Inr ` {0..<length cs}"
  proof (rule set_eqI, rule iffI)
    fix r
    assume "r \<in> ?f ` set cs"
    then obtain s where s: "s \<in> set cs" and r: "r = ?f s" by blast
    from s obtain i where "?f s = Inr i" "i < length cs"
      by (rule transform_code)
    with r show "r \<in> Inr ` {0..<length cs}" by simp
  next
    fix r :: "error + nat"
    assume "r \<in> Inr ` {0..<length cs}"
    then obtain i where i: "i < length cs" and r: "r = Inr i" by auto
    from i have mem: "cs ! i \<in> set cs" by (rule nth_mem)
    from index_of_nth [OF assms i] have "?f (cs ! i) = Inr i" by simp
    with r have "r = ?f (cs ! i)" by simp
    then show "r \<in> ?f ` set cs" using mem by (rule image_eqI)
  qed
qed

lemma object_order:
  assumes "sorted cs" and "distinct cs"
    and "transform ext (object_classes cs) (JStr s) = Inr i"
    and "transform ext (object_classes cs) (JStr t) = Inr j"
  shows "s < t \<longleftrightarrow> i < j"
proof -
  from transform_code_inv [OF assms(3)] have i: "i < length cs" "cs ! i = s" .
  from transform_code_inv [OF assms(4)] have j: "j < length cs" "cs ! j = t" .
  have mono: "cs ! a \<le> cs ! b" if "a \<le> b" "b < length cs" for a b
    using that assms(1) by (simp add: sorted_nth_mono)
  have neq: "cs ! a \<noteq> cs ! b" if "a \<noteq> b" "a < length cs" "b < length cs" for a b
    using that assms(2) by (simp add: nth_eq_iff_index_eq)
  show ?thesis
  proof
    assume "s < t"
    show "i < j"
    proof (rule ccontr)
      assume "\<not> i < j"
      then have "j \<le> i" by simp
      from mono [OF this i(1)] i j have "t \<le> s" by simp
      with \<open>s < t\<close> show False by simp
    qed
  next
    assume "i < j"
    then have "cs ! i \<le> cs ! j" "cs ! i \<noteq> cs ! j"
      using mono [of i j] neq [of i j] i j by simp_all
    with i j show "s < t" by simp
  qed
qed

lemma fit_strings:
  "fit (StrColumn col) = object_classes (sort (remdups col))"
  "sorted (sort (remdups col))" "distinct (sort (remdups col))"
  "set (sort (remdups col)) = set col" "length (sort (remdups col)) = card (set col)"
  by (simp_all add: length_remdups_card_conv)

lemma fit_bijection:
  "bij_betw (\<lambda>s. transform ext (fit (StrColumn col)) (JStr s)) (set col)
     (Inr ` {0..<card (set col)})"
  using object_bijection [OF fit_strings(3), of ext col]
  by (simp only: fit_strings)

lemma fit_order:
  assumes "transform ext (fit (StrColumn col)) (JStr s) = Inr i"
    and "transform ext (fit (StrColumn col)) (JStr t) = Inr j"
  shows "s < t \<longleftrightarrow> i < j"
  using assms object_order [OF fit_strings(2) fit_strings(3), of ext col s i t j]
  by (simp only: fit_strings(1))

lemma sample_crime_classes:
  "fit (frame_crime_type sample_frame) = object_classes [''arson'', ''fraud'', ''theft'']"
  by code_simp

lemma sample_crime_card:
  "card (set [''theft'', ''fraud'', ''theft'', ''arson'']) = 3"
  by code_simp

lemma coded_fit_transform:
  "fit_transform (frame_crime_type coded_frame) = (int64_classes [2, 9, 10], [2, 1, 0])"
  "fit_transform (frame_location coded_frame) = (object_classes [''downtown'', ''suburb''], [0, 1, 1])"
  "fit_transform (frame_time_of_day coded_frame) = (object_classes [''day'', ''night''], [1, 0, 1])"
  by code_simp+

text \<open>
  C8, as the claim states it, fails: in a training file whose \<^verbatim>\<open>crime_type\<close> cells are
  written \<^verbatim>\<open>10\<close>, \<^verbatim>\<open>9\<close>, \<^verbatim>\<open>2\<close>, pandas reads the column as integers and the encoder
  numbers the categories by value: 2 gets 0 and 10 gets 2, although the string \<open>''10''\<close>
  is lexicographically before \<open>''2''\<close>.
\<close>

theorem label_encoders_counterexample:
  "train_model first_label coded_frame untrained =
     Inr (untrained\<lparr>bundle_file := Some (Dumped
       \<lparr>model = first_label [(2, 0, 1), (1, 1, 0), (0, 1, 1)] (frame_suspect coded_frame),
        le_crime = int64_classes [2, 9, 10],
        le_location = object_classes [''downtown'', ''suburb''],
        le_time = object_classes [''day'', ''night'']\<rparr>)\<rparr>)
   \<and> transform strict (int64_classes [2, 9, 10]) (JInt 10) = Inr 2
   \<and> transform strict (int64_classes [2, 9, 10]) (JInt 2) = Inr 0
   \<and> (''10'' :: string) < ''2''"
proof -
  have "train_model first_label coded_frame untrained =
     Inr (untrained\<lparr>bundle_file := Some (Dumped
       \<lparr>model = first_label [(2, 0, 1), (1, 1, 0), (0, 1, 1)] (frame_suspect coded_frame),
        le_crime = int64_classes [2, 9, 10],
        le_location = object_classes [''downtown'', ''suburb''],
        le_time = object_classes [''day'', ''night'']\<rparr>)\<rparr>)"
    by (simp add: train_model_def coded_fit_transform)
  moreover have "transform strict (int64_classes [2, 9, 10]) (JInt 10) = Inr 2"
    "transform strict (int64_classes [2, 9, 10]) (JInt 2) = Inr 0"
    by (simp_all add: int64_def)
  moreover have "(''10'' :: string) < ''2''"
    by code_simp
  ultimately show ?thesis by simp
qed

text \<open>
  C8, amended. After a run of \<open>train_model\<close> on any training frame, each of the three
  encoders in the bundle whose column pandas read as strings maps the distinct strings of
  that column one-to-one onto the integers \<open>0, \<dots>, k - 1\<close>, \<open>k\<close> the number of distinct
  strings of the column, and a string that is lexicographically smaller gets the smaller
  integer (\<open><\<close> on strings is the lexicographic order over the order of the characters'
  codes).
\<close>

theorem label_encoders_bijective:
  assumes "train_model forest_fit frame w = Inr w'"
  shows "\<exists>b. bundle_file w' = Some (Dumped b) \<and>
     (\<forall>(le, column) \<in> {(le_crime b, frame_crime_type frame),
                        (le_location b, frame_location frame),
                        (le_time b, frame_time_of_day frame)}.
        \<forall>col. column = StrColumn col \<longrightarrow>
          bij_betw (\<lambda>s. transform ext le (JStr s)) (set col) (Inr ` {0..<card (set col)})
        \<and> (\<forall>s \<in> set col. \<forall>t \<in> set col. \<forall>i j.
              transform ext le (JStr s) = Inr i \<and> transform ext le (JStr t) = Inr j \<longrightarrow>
              (s < t \<longleftrightarrow> i < j)))"
proof -
  from assms obtain b where b: "bundle_file w' = Some (Dumped b)"
    "le_crime b = fit (frame_crime_type frame)"
    "le_location b = fit (frame_location frame)"
    "le_time b = fit (frame_time_of_day frame)"
    by (rule train_model_writes)
  have "bij_betw (\<lambda>s. transform ext (fit column) (JStr s)) (set col) (Inr ` {0..<card (set col)})
      \<and> (\<forall>s \<in> set col. \<forall>t \<in> set col. \<forall>i j.
            transform ext (fit column) (JStr s) = Inr i
              \<and> transform ext (fit column) (JStr t) = Inr j \<longrightarrow>
            (s < t \<longleftrightarrow> i < j))" if "column = StrColumn col" for column col
    unfolding that using fit_bijection [of ext col] fit_order [of ext col] by blast
  with b show ?thesis by simp
qed

theorem label_encoders_bijective_witness:
  "\<exists>w' b. train_model first_label sample_frame untrained = Inr w'
     \<and> bundle_file w' = Some (Dumped b)
     \<and> frame_crime_type sample_frame = StrColumn [''theft'', ''fraud'', ''theft'', ''arson'']
     \<and> le_crime b = object_classes [''arson'', ''fraud'', ''theft'']
     \<and> bij_betw (\<lambda>s. transform strict (le_crime b) (JStr s))
          (set [''theft'', ''fraud'', ''theft'', ''arson'']) (Inr ` {0..<3})
     \<and> transform strict (le_crime b) (JStr ''arson'') = Inr 0
     \<and> transform strict (le_crime b) (JStr ''fraud'') = Inr 1
     \<and> transform strict (le_crime b) (JStr ''theft'') = Inr 2"
proof -
  obtain w' where h: "train_model first_label sample_frame untrained = Inr w'"
    by (simp add: train_model_def Let_def split_def sample_frame_def positions_def)
  from train_model_writes [OF h] obtain b0 where b0: "bundle_file w' = Some (Dumped b0)"
    "le_crime b0 = fit (frame_crime_type sample_frame)" by metis
  have col: "frame_crime_type sample_frame = StrColumn [''theft'', ''fraud'', ''theft'', ''arson'']"
    by (simp add: sample_frame_def)
  from label_encoders_bijective [OF h, of strict] b0(1) col
  have "bij_betw (\<lambda>s. transform strict (le_crime b0) (JStr s))
          (set [''theft'', ''fraud'', ''theft'', ''arson''])
          (Inr ` {0..<card (set [''theft'', ''fraud'', ''theft'', ''arson''])})"
    by auto
  then have bij: "bij_betw (\<lambda>s. transform strict (le_crime b0) (JStr s))
          (set [''theft'', ''fraud'', ''theft'', ''arson'']) (Inr ` {0..<3})"
    by (simp only: sample_crime_card)
  have cl: "le_crime b0 = object_classes [''arson'', ''fraud'', ''theft'']"
    by (simp only: b0(2) sample_crime_classes)
  have "transform strict (le_crime b0) (JStr ''arson'') = Inr 0"
    "transform strict (le_crime b0) (JStr ''fraud'') = Inr 1"
    "transform strict (le_crime b0) (JStr ''theft'') = Inr 2"
    by (simp_all add: cl)
  with h b0(1) col cl bij show ?thesis by blast
qed

end
